theory Spec2Isabelle
  imports Main
begin

section \<open>Wire types\<close>

text \<open>
  The structs of the shared type file. Every field keeps its Go name behind a prefix that
  names its struct (Go scopes field names by struct, HOL does not). A Go \<open>int\<close> is
  modelled as \<open>int\<close>: the handlers only compare these values and take \<open>len\<close>, they never
  do arithmetic on them, so no wrap-around can occur. A Go slice is a list: every slice
  held by a map entry is reachable from that entry alone (requests are decoded afresh for
  each datagram), so value semantics are exact.
\<close>

record ChunkID =
  cid_IDX :: int
  cid_IDY :: int

record Player =
  p_ID :: string
  p_PosX :: int
  p_PosY :: int
  p_ServerIP :: string
  p_AOIRadius :: int
  p_ChunkID :: ChunkID

record Cube =
  cube_ID :: string
  cube_X :: int
  cube_Z :: int
  cube_Height :: int
  cube_Color :: string

record Chunk =
  ch_IDX :: int
  ch_IDY :: int
  ch_ServerIP :: string
  ch_Data :: string
  ch_PlayerList :: "Player list"
  ch_IsDirty :: bool
  ch_Cells :: "Cube list"

record GameData =
  gd_Chunk :: Chunk

record Request =
  req_Type :: string
  req_ChunkID :: ChunkID
  req_CallerIP :: string
  req_Player :: Player
  req_IsPeerReq :: bool
  req_Chunk :: Chunk
  req_IsChunkNew :: bool
  req_PlayerCount :: int
  req_PlayerID :: string
  req_Cube :: Cube
  req_CubeID :: string

record Response =
  res_Success :: bool
  res_Chunk :: Chunk
  res_Message :: string
  res_GameData :: GameData
  res_NewIP :: string
  res_PlayerCount :: int

record PlayerJoinRequest =
  jreq_PlayerID :: string
  jreq_PosX :: int
  jreq_PosY :: int

text \<open>Go's zero values: what a composite literal leaves in the fields it does not name.\<close>

definition zero_ChunkID :: ChunkID where
  "zero_ChunkID = \<lparr>cid_IDX = 0, cid_IDY = 0\<rparr>"

definition zero_Player :: Player where
  "zero_Player = \<lparr>p_ID = [], p_PosX = 0, p_PosY = 0, p_ServerIP = [], p_AOIRadius = 0,
     p_ChunkID = zero_ChunkID\<rparr>"

definition zero_Cube :: Cube where
  "zero_Cube = \<lparr>cube_ID = [], cube_X = 0, cube_Z = 0, cube_Height = 0, cube_Color = []\<rparr>"

definition zero_Chunk :: Chunk where
  "zero_Chunk = \<lparr>ch_IDX = 0, ch_IDY = 0, ch_ServerIP = [], ch_Data = [], ch_PlayerList = [],
     ch_IsDirty = False, ch_Cells = []\<rparr>"

definition zero_Request :: Request where
  "zero_Request = \<lparr>req_Type = [], req_ChunkID = zero_ChunkID, req_CallerIP = [],
     req_Player = zero_Player, req_IsPeerReq = False, req_Chunk = zero_Chunk,
     req_IsChunkNew = False, req_PlayerCount = 0, req_PlayerID = [], req_Cube = zero_Cube,
     req_CubeID = []\<rparr>"

definition zero_Response :: Response where
  "zero_Response = \<lparr>res_Success = False, res_Chunk = zero_Chunk, res_Message = [],
     res_GameData = \<lparr>gd_Chunk = zero_Chunk\<rparr>, res_NewIP = [], res_PlayerCount = 0\<rparr>"

section \<open>Central coordinator\<close>

text \<open>
  The registry is the package variable \<open>zone\<close>. \<open>main\<close> makes the map before it
  registers a route, so no handler ever sees a nil map, and the request body that
  \<open>net/http\<close> hands to a server handler is never nil: the two guards of
  \<open>handlePeerChunk\<close> on these are not branches of the model. What a handler writes to
  the \<open>ResponseWriter\<close> is its \<open>http_reply\<close>.
\<close>

type_synonym registry = "ChunkID \<rightharpoonup> string"

datatype 'a http_body = Undecodable | Decoded 'a

record 'a http_request =
  http_method :: string
  http_body :: "'a http_body"

datatype http_reply =
    StatusOnly nat
  | JsonError nat
  | TextError nat string
  | Json Response

datatype error = IndexOutOfRange | NilPointerDereference | LogFatal

definition serversList :: "string list" where
  "serversList = [''172.16.118.72:9000'', ''172.16.118.120:9000'', ''172.16.118.112:9000'']"

text \<open>
  \<open>randomServer\<close> reads the membership list, here its first argument; an index past the
  end of the list is Go's run-time panic.
\<close>

definition randomServer :: "string list \<Rightarrow> string \<Rightarrow> error + string" where
  "randomServer sl pid =
     (let key = (if pid = ''1'' then 1 else if pid = ''2'' then 2 else (3::nat))
      in if key - 1 < length sl then Inr (sl ! (key - 1)) else Inl IndexOutOfRange)"

definition handleJoin ::
  "string list \<Rightarrow> registry \<Rightarrow> PlayerJoinRequest http_request \<Rightarrow> error + (registry \<times> http_reply)"
where
  "handleJoin sl zone r =
     (if http_method r \<noteq> ''POST'' then Inr (zone, StatusOnly 405)
      else case http_body r of
          Undecodable \<Rightarrow> Inr (zone, JsonError 400)
        | Decoded req \<Rightarrow>
            (case randomServer sl (jreq_PlayerID req) of
                Inl e \<Rightarrow> Inl e
              | Inr assigned \<Rightarrow>
                  Inr (zone, Json (zero_Response\<lparr>res_Success := True, res_Message := assigned\<rparr>))))"

text \<open>The wrapper \<open>enableCORS\<close> that \<open>main\<close> puts around \<open>handleJoin\<close>.\<close>

definition enableCORS ::
  "(registry \<Rightarrow> 'a http_request \<Rightarrow> error + (registry \<times> http_reply)) \<Rightarrow>
   registry \<Rightarrow> 'a http_request \<Rightarrow> error + (registry \<times> http_reply)"
where
  "enableCORS next zone r =
     (if http_method r = ''OPTIONS'' then Inr (zone, StatusOnly 200) else next zone r)"

definition handleSentChunk :: "registry \<Rightarrow> Request http_request \<Rightarrow> registry \<times> http_reply" where
  "handleSentChunk zone r =
     (if http_method r \<noteq> ''POST'' then (zone, StatusOnly 405)
      else case http_body r of
          Undecodable \<Rightarrow> (zone, JsonError 400)
        | Decoded req \<Rightarrow> (zone(req_ChunkID req \<mapsto> req_CallerIP req), StatusOnly 200))"

text \<open>
  What the UDP exchange with the current owner comes to, in the order in which
  \<open>handlePeerChunk\<close> can fail: the five set-up steps, the read under its deadline, a
  datagram that is not the JSON of a \<open>Response\<close>, and at last the reply of the owner:
  \<open>PeerReply n res\<close> is the datagram that \<open>sendJSON\<close> makes of the \<open>Response\<close>
  \<open>res\<close>, \<open>n\<close> bytes long. The length is that of \<open>json.Marshal\<close>'s output, which the
  model takes as given.
\<close>

datatype peer_outcome =
    ResolvePeerFailed
  | ResolveLocalFailed
  | DialFailed
  | MarshalFailed
  | WriteFailed
  | ReadFailed
  | InvalidReply
  | PeerReply nat Response

text \<open>
  \<open>buffer := make([]byte, 1024)\<close>: \<open>conn.Read\<close> fills the buffer with the datagram and
  drops what does not fit. A JSON object cut before its closing brace is not JSON, so a
  reply longer than the buffer fails \<open>json.Unmarshal\<close>; a reply that fits decodes to the
  \<open>Response\<close> that was sent.
\<close>

definition read_reply :: "nat \<Rightarrow> Response \<Rightarrow> Response option" where
  "read_reply n res = (let buffer_len = (1024::nat) in if n \<le> buffer_len then Some res else None)"

text \<open>The decision both fallbacks of \<open>handlePeerChunk\<close> take (read error, invalid data).\<close>

definition degraded ::
  "registry \<Rightarrow> ChunkID \<Rightarrow> string \<Rightarrow> int \<Rightarrow> string \<Rightarrow> registry \<times> http_reply"
where
  "degraded zone chunk_id caller_ip caller_load owner =
     (if caller_load > 0
      then (zone(chunk_id \<mapsto> caller_ip),
            Json (zero_Response\<lparr>res_Success := True, res_Message := caller_ip,
                                 res_NewIP := caller_ip\<rparr>))
      else (zone,
            Json (zero_Response\<lparr>res_Success := True, res_Message := owner,
                                 res_NewIP := owner\<rparr>)))"

definition handlePeerChunk ::
  "registry \<Rightarrow> Request http_request \<Rightarrow> peer_outcome \<Rightarrow> registry \<times> http_reply"
where
  "handlePeerChunk zone r peer =
     (if http_method r \<noteq> ''POST'' then (zone, StatusOnly 405)
      else case http_body r of
          Undecodable \<Rightarrow> (zone, JsonError 400)
        | Decoded req \<Rightarrow>
            if req_CallerIP req = [] then (zone, TextError 400 ''Missing caller_ip'')
            else
              let chunk_id = req_ChunkID req; caller_load = req_PlayerCount req in
              (case zone chunk_id of
                  None \<Rightarrow>
                    (zone(chunk_id \<mapsto> req_CallerIP req),
                     Json (zero_Response\<lparr>res_Success := False\<rparr>))
                | Some owner \<Rightarrow>
                    (case peer of
                        ResolvePeerFailed \<Rightarrow> (zone, TextError 500 ''Internal server error'')
                      | ResolveLocalFailed \<Rightarrow> (zone, TextError 500 ''Internal server error'')
                      | DialFailed \<Rightarrow> (zone, TextError 500 ''Internal server error'')
                      | MarshalFailed \<Rightarrow> (zone, TextError 500 ''Internal server error'')
                      | WriteFailed \<Rightarrow> (zone, TextError 500 ''Internal server error'')
                      | ReadFailed \<Rightarrow>
                          degraded zone chunk_id (req_CallerIP req) caller_load owner
                      | InvalidReply \<Rightarrow>
                          degraded zone chunk_id (req_CallerIP req) caller_load owner
                      | PeerReply n sent_res \<Rightarrow>
                          (case read_reply n sent_res of
                              None \<Rightarrow>
                                degraded zone chunk_id (req_CallerIP req) caller_load owner
                            | Some res \<Rightarrow>
                                (let callee_load = res_PlayerCount res;
                                     peer_chunk = res_Chunk res
                                 in if callee_load < caller_load
                                    then (zone(chunk_id \<mapsto> req_CallerIP req),
                                          Json (zero_Response\<lparr>res_Success := True,
                                             res_Message := req_CallerIP req,
                                             res_NewIP := req_CallerIP req,
                                             res_Chunk := peer_chunk\<rparr>))
                                    else (zone,
                                          Json (zero_Response\<lparr>res_Success := True,
                                             res_Message := owner, res_NewIP := owner\<rparr>)))))))"

text \<open>
  The routes of \<open>main\<close>: \<open>/join\<close>, \<open>/chunk\<close> and \<open>/peer_chunk\<close> (both served by
  \<open>handlePeerChunk\<close>), and \<open>/sentchunk\<close>. A call is the route with its request and, for
  the peer routes, the outcome of the exchange with the owner. \<open>net/http\<close> recovers a
  panic of a handler, so the registry survives it as the handler left it; the only
  panic of a central handler is in \<open>randomServer\<close>, before any write.
  \<open>handleFetchChunk\<close> is defined in the source but \<open>main\<close> gives it no route, so no
  request reaches it.
\<close>

datatype central_call =
    JOIN "PlayerJoinRequest http_request"
  | PEER_CHUNK "Request http_request" peer_outcome
  | SENT_CHUNK "Request http_request"

fun central_step :: "string list \<Rightarrow> registry \<Rightarrow> central_call \<Rightarrow> registry" where
  "central_step sl zone (JOIN r) =
     (case enableCORS (handleJoin sl) zone r of Inl e \<Rightarrow> zone | Inr (zone', _) \<Rightarrow> zone')"
| "central_step sl zone (PEER_CHUNK r peer) = fst (handlePeerChunk zone r peer)"
| "central_step sl zone (SENT_CHUNK r) = fst (handleSentChunk zone r)"

fun central_run :: "string list \<Rightarrow> registry \<Rightarrow> central_call list \<Rightarrow> registry" where
  "central_run sl zone [] = zone"
| "central_run sl zone (c # cs) = central_run sl (central_step sl zone c) cs"

text \<open>The chunk a call names and the caller address it carries, when its body decodes.\<close>

fun call_request :: "central_call \<Rightarrow> Request option" where
  "call_request (JOIN r) = None"
| "call_request (PEER_CHUNK r peer) =
     (case http_body r of Undecodable \<Rightarrow> None | Decoded req \<Rightarrow> Some req)"
| "call_request (SENT_CHUNK r) =
     (case http_body r of Undecodable \<Rightarrow> None | Decoded req \<Rightarrow> Some req)"

fun is_PEER_CHUNK :: "central_call \<Rightarrow> bool" where
  "is_PEER_CHUNK (PEER_CHUNK r peer) = True"
| "is_PEER_CHUNK _ = False"

fun is_SENT_CHUNK :: "central_call \<Rightarrow> bool" where
  "is_SENT_CHUNK (SENT_CHUNK r) = True"
| "is_SENT_CHUNK _ = False"

section \<open>Game server\<close>

text \<open>
  The package variables of a game server. \<open>serverIP\<close> is the server's own endpoint; it
  is a variable of the source that nothing reassigns.
\<close>

record server_state =
  serverIP :: string
  zone_map :: "ChunkID \<rightharpoonup> Chunk"
  players :: "string \<rightharpoonup> ChunkID"
  player_map :: "string \<rightharpoonup> Player"

text \<open>
  What a handler does to the outside: the calls of \<open>merge\<close> it made, each with the peer
  address and the request, in order, and the \<open>Response\<close> it handed to \<open>sendJSON\<close>.
\<close>

record effects =
  sent :: "(string \<times> Request) list"
  reply :: Response

text \<open>
  \<open>merge\<close> dials the peer, writes the request and waits two seconds for the
  acknowledgement. \<open>log.Fatal\<close> ends the process when the address does not resolve or
  the dial fails; a failed marshal, write, read or decode returns \<open>nil\<close> with the
  error; otherwise it returns a pointer to the decoded acknowledgement. Which of these
  happens is up to the network and the peer: it is the first argument of the model.
\<close>

datatype merge_outcome = MergeFatal | MergeFailed | MergeAck Response

fun merge :: "merge_outcome \<Rightarrow> Request \<Rightarrow> string \<Rightarrow> error + Response option" where
  "merge MergeFatal req peer_ip = Inl LogFatal"
| "merge MergeFailed req peer_ip = Inr None"
| "merge (MergeAck res) req peer_ip = Inr (Some res)"

text \<open>
  Both callers of \<open>merge\<close> drop its error and read \<open>merge_res.Message\<close> for the log
  line: on a \<open>nil\<close> result that read is a nil-pointer dereference, which ends the
  process (the UDP loop has no \<open>recover\<close>).
\<close>

definition merge_res_Message :: "Response option \<Rightarrow> error + string" where
  "merge_res_Message merge_res =
     (case merge_res of None \<Rightarrow> Inl NilPointerDereference | Some res \<Rightarrow> Inr (res_Message res))"

text \<open>
  The loop \<open>for _, player := range list { player.ServerIP = ip }\<close>. The loop variable
  \<open>player\<close> is a copy of the element; the assignment changes the copy, and nothing
  is stored back into the slice. The function returns the slice as the loop leaves it.
\<close>

fun range_assign_ServerIP :: "Player list \<Rightarrow> string \<Rightarrow> Player list" where
  "range_assign_ServerIP [] ip = []"
| "range_assign_ServerIP (elem # rest) ip =
     (let player = elem;
          player = player\<lparr>p_ServerIP := ip\<rparr>
      in elem # range_assign_ServerIP rest ip)"

text \<open>\<open>chunk, _ := zone_map[chunk_id]\<close>: the zero chunk when the key is absent.\<close>

definition lookup_chunk :: "(ChunkID \<rightharpoonup> Chunk) \<Rightarrow> ChunkID \<Rightarrow> Chunk" where
  "lookup_chunk zm chunk_id = (case zm chunk_id of None \<Rightarrow> zero_Chunk | Some chunk \<Rightarrow> chunk)"

definition deleteFromList :: "Cube list \<Rightarrow> nat \<Rightarrow> error + Cube list" where
  "deleteFromList s idx =
     (if idx < length s then Inr (butlast (s[idx := s ! (length s - 1)]))
      else Inl IndexOutOfRange)"

text \<open>The index at which the \<open>range\<close> loop of \<open>handleDltCube\<close> reaches its \<open>break\<close>.\<close>

fun first_match :: "Cube list \<Rightarrow> string \<Rightarrow> nat option" where
  "first_match [] cube_id = None"
| "first_match (cell # cells) cube_id =
     (if cube_ID cell = cube_id then Some 0 else map_option Suc (first_match cells cube_id))"

definition handleDltCube :: "server_state \<Rightarrow> Request \<Rightarrow> error + (server_state \<times> effects)" where
  "handleDltCube s req =
     (let chunk_id = req_ChunkID req;
          chunk = lookup_chunk (zone_map s) chunk_id;
          cells = (case first_match (ch_Cells chunk) (req_CubeID req) of
                      None \<Rightarrow> Inr (ch_Cells chunk)
                    | Some cell_no \<Rightarrow> deleteFromList (ch_Cells chunk) cell_no)
      in case cells of
          Inl e \<Rightarrow> Inl e
        | Inr cells' \<Rightarrow>
            Inr (s\<lparr>zone_map := (zone_map s)(chunk_id \<mapsto>
                      chunk\<lparr>ch_Cells := cells', ch_IsDirty := True\<rparr>)\<rparr>,
                 \<lparr>sent = [],
                  reply = zero_Response\<lparr>res_Success := True, res_Message := ''Deleted Cube''\<rparr>\<rparr>))"

definition handleAddCube :: "server_state \<Rightarrow> Request \<Rightarrow> server_state \<times> effects" where
  "handleAddCube s req =
     (let chunk_id = req_ChunkID req;
          chunk = lookup_chunk (zone_map s) chunk_id;
          chunk = chunk\<lparr>ch_Cells := ch_Cells chunk @ [req_Cube req]\<rparr>;
          chunk = chunk\<lparr>ch_IsDirty := True\<rparr>
      in (s\<lparr>zone_map := (zone_map s)(chunk_id \<mapsto> chunk)\<rparr>,
          \<lparr>sent = [],
           reply = zero_Response\<lparr>res_Success := True, res_Message := ''Added Cube''\<rparr>\<rparr>))"

definition handleMergeChunk :: "server_state \<Rightarrow> Request \<Rightarrow> server_state \<times> effects" where
  "handleMergeChunk s req =
     (let chunk_id = req_ChunkID req;
          req_chunk = req_Chunk req;
          zm = (case zone_map s chunk_id of
                   None \<Rightarrow> (zone_map s)(chunk_id \<mapsto> req_chunk)
                 | Some chunk \<Rightarrow>
                     (zone_map s)(chunk_id \<mapsto>
                        chunk\<lparr>ch_PlayerList :=
                          fold (\<lambda>player l. l @ [player]) (ch_PlayerList req_chunk)
                            (ch_PlayerList chunk)\<rparr>))
      in (s\<lparr>zone_map := zm\<rparr>,
          \<lparr>sent = [],
           reply = zero_Response\<lparr>res_Success := True, res_Message := ''Merged Chunk''\<rparr>\<rparr>))"

definition handleCentralPeerReq ::
  "server_state \<Rightarrow> Request \<Rightarrow> merge_outcome \<Rightarrow> error + (server_state \<times> effects)"
where
  "handleCentralPeerReq s req m =
     (let chunk_id = req_ChunkID req;
          chunk = lookup_chunk (zone_map s) chunk_id;
          caller_player_count = req_PlayerCount req;
          my_player_count = int (length (ch_PlayerList chunk))
      in if caller_player_count \<ge> my_player_count then
           (let chunk = chunk\<lparr>ch_ServerIP := req_CallerIP req\<rparr>;
                chunk = chunk\<lparr>ch_PlayerList :=
                          range_assign_ServerIP (ch_PlayerList chunk) (req_CallerIP req)\<rparr>;
                chunk = chunk\<lparr>ch_IsDirty := True\<rparr>;
                s' = s\<lparr>zone_map := (zone_map s)(chunk_id \<mapsto> chunk)\<rparr>;
                res = zero_Response\<lparr>res_Success := True, res_Chunk := chunk,
                        res_PlayerCount := my_player_count\<rparr>;
                merge_req = zero_Request\<lparr>req_Type := ''MERGE'', req_ChunkID := chunk_id,
                              req_Chunk := chunk\<rparr>
            in case merge m merge_req (req_CallerIP req) of
                Inl e \<Rightarrow> Inl e
              | Inr merge_res \<Rightarrow>
                  (case merge_res_Message merge_res of
                      Inl e \<Rightarrow> Inl e
                    | Inr _ \<Rightarrow>
                        Inr (s', \<lparr>sent = [(req_CallerIP req, merge_req)], reply = res\<rparr>)))
         else
           Inr (s, \<lparr>sent = [],
                    reply = zero_Response\<lparr>res_Success := True,
                              res_PlayerCount := my_player_count, res_Chunk := chunk\<rparr>\<rparr>))"

text \<open>
  The call of central in \<open>handleGetData\<close>: \<open>http.Post\<close> fails and leaves a nil
  \<open>httpResp\<close>, whose body the next line reads; or it returns, and \<open>CentralResponse\<close>
  carries \<open>central_response\<close> as \<open>Decode\<close> leaves it (the zero \<open>Response\<close> when the
  body is not JSON).
\<close>

datatype central_outcome = PostFailed | CentralResponse Response

definition handleGetData ::
  "server_state \<Rightarrow> Request \<Rightarrow> central_outcome \<Rightarrow> merge_outcome \<Rightarrow>
   error + (server_state \<times> effects)"
where
  "handleGetData s req central m =
     (let chunk_id = req_ChunkID req;
          player_id = p_ID (req_Player req);
          player = req_Player req;
          val = lookup_chunk (zone_map s) chunk_id;
          ok = (zone_map s chunk_id \<noteq> None);
          player_count = (if ok then int (length (ch_PlayerList val)) else 0)
      in if ok \<and> ch_ServerIP val = serverIP s then
           Inr (s\<lparr>players := (players s)(player_id \<mapsto> chunk_id)\<rparr>,
                \<lparr>sent = [],
                 reply = zero_Response\<lparr>res_Success := True, res_Chunk := val,
                           res_Message := serverIP s\<rparr>\<rparr>)
         else
           (case central of
               PostFailed \<Rightarrow> Inl NilPointerDereference
             | CentralResponse central_response \<Rightarrow>
                 if \<not> res_Success central_response then
                   (let new_chunk = zero_Chunk\<lparr>ch_IDX := cid_IDX chunk_id,
                                      ch_IDY := cid_IDY chunk_id, ch_Data := ''new chunk'',
                                      ch_ServerIP := serverIP s, ch_Cells := []\<rparr>;
                        new_chunk = new_chunk\<lparr>ch_PlayerList :=
                                      ch_PlayerList new_chunk @ [player]\<rparr>
                    in Inr (s\<lparr>players := (players s)(player_id \<mapsto> chunk_id),
                              player_map := (player_map s)(player_id \<mapsto> player),
                              zone_map := (zone_map s)(chunk_id \<mapsto> new_chunk)\<rparr>,
                            \<lparr>sent = [],
                             reply = zero_Response\<lparr>res_Success := True,
                                       res_Chunk := new_chunk, res_Message := serverIP s\<rparr>\<rparr>))
                 else
                   (let owner = res_Message central_response in
                    if ok \<and> owner \<noteq> serverIP s then
                      (let val = val\<lparr>ch_PlayerList :=
                                    range_assign_ServerIP (ch_PlayerList val) owner\<rparr>;
                           val = val\<lparr>ch_ServerIP := owner\<rparr>;
                           val = val\<lparr>ch_IsDirty := True\<rparr>;
                           zm = (zone_map s)(chunk_id \<mapsto> val);
                           merge_req = zero_Request\<lparr>req_Type := ''MERGE'',
                                         req_ChunkID := chunk_id, req_Chunk := val\<rparr>
                       in case merge m merge_req owner of
                           Inl e \<Rightarrow> Inl e
                         | Inr merge_res \<Rightarrow>
                             (case merge_res_Message merge_res of
                                 Inl e \<Rightarrow> Inl e
                               | Inr _ \<Rightarrow>
                                   (let res = zero_Response\<lparr>res_Success := True,
                                                res_Message := owner\<rparr>
                                    in Inr (s\<lparr>zone_map := zm(chunk_id \<mapsto> res_Chunk res)\<rparr>,
                                            \<lparr>sent = [(owner, merge_req)], reply = res\<rparr>))))
                    else if \<not> ok \<and> owner \<noteq> serverIP s then
                      (let temp_chunk = zero_Chunk;
                           temp_chunk = temp_chunk\<lparr>ch_PlayerList :=
                                          ch_PlayerList temp_chunk @ [player]\<rparr>;
                           merge_req = zero_Request\<lparr>req_Type := ''MERGE'',
                                         req_ChunkID := chunk_id, req_Chunk := temp_chunk\<rparr>
                       in case merge m merge_req owner of
                           Inl e \<Rightarrow> Inl e
                         | Inr merge_res \<Rightarrow>
                             (case merge_res_Message merge_res of
                                 Inl e \<Rightarrow> Inl e
                               | Inr _ \<Rightarrow>
                                   (let res = zero_Response\<lparr>res_Success := True,
                                                res_Message := owner\<rparr>
                                    in Inr (s\<lparr>zone_map :=
                                                (zone_map s)(chunk_id \<mapsto> res_Chunk res)\<rparr>,
                                            \<lparr>sent = [(owner, merge_req)], reply = res\<rparr>))))
                    else if ok then
                      (let updated_chunk = lookup_chunk (zone_map s) chunk_id;
                           res = zero_Response\<lparr>res_Success := True,
                                   res_Chunk := updated_chunk, res_Message := owner\<rparr>
                       in Inr (s\<lparr>zone_map := (zone_map s)(chunk_id \<mapsto> res_Chunk res)\<rparr>,
                               \<lparr>sent = [], reply = res\<rparr>))
                    else
                      (let updated_chunk = res_Chunk central_response;
                           updated_chunk = updated_chunk\<lparr>ch_PlayerList :=
                                             ch_PlayerList updated_chunk @ [player]\<rparr>;
                           res = zero_Response\<lparr>res_Success := True,
                                   res_Chunk := updated_chunk, res_Message := owner\<rparr>
                       in Inr (s\<lparr>zone_map := (zone_map s)(chunk_id \<mapsto> res_Chunk res)\<rparr>,
                               \<lparr>sent = [], reply = res\<rparr>)))))"

text \<open>
  The request \<open>handleGetData\<close> posts to \<open>/chunk\<close> on a miss, and a \<open>POST\<close> whose
  body decodes to a given value.
\<close>

definition centralReq :: "ChunkID \<Rightarrow> string \<Rightarrow> int \<Rightarrow> Request" where
  "centralReq chunk_id self player_count =
     zero_Request\<lparr>req_Type := ''GET_CHUNK'', req_ChunkID := chunk_id, req_CallerIP := self,
       req_PlayerCount := player_count\<rparr>"

definition post :: "'a \<Rightarrow> 'a http_request" where
  "post b = \<lparr>http_method = ''POST'', http_body = Decoded b\<rparr>"

text \<open>
  A chunk \<open>(0, 0)\<close> of server \<open>172.16.118.72:9000\<close> with eight players on it. The
  reply of that server to a \<open>FROM_CENTRAL\<close> it does not yield to carries the whole
  chunk; \<open>json.Marshal\<close> makes 1170 bytes of it.
\<close>

definition crowded_chunk :: Chunk where
  "crowded_chunk =
     zero_Chunk\<lparr>ch_ServerIP := ''172.16.118.72:9000'', ch_Data := ''new chunk'',
       ch_PlayerList :=
         map (\<lambda>k. zero_Player\<lparr>p_ID := k, p_ServerIP := ''172.16.118.72:9000''\<rparr>)
           [''p1'', ''p2'', ''p3'', ''p4'', ''p5'', ''p6'', ''p7'', ''p8'']\<rparr>"

section \<open>Central coordinator: the tiebreak, first contact and JOIN\<close>

text \<open>
  The tiebreak on a reply that fits the read buffer. A \<open>PEER_CHUNK\<close> request that
  passes the handler's checks, for a chunk the registry maps to \<open>owner\<close>, where the
  owner's reply \<open>res\<close> is at most 1024 bytes long: when the owner's count is strictly
  below the caller's, the registry entry becomes the caller's address and the reply names
  the caller (and carries the owner's chunk); when the caller's count is at most the
  owner's, the registry is unchanged and the reply names \<open>owner\<close>. So, for a caller
  other than the owner, the entry reads the caller's address after the call exactly when
  the owner's count is strictly smaller.
\<close>

lemma peer_chunk_strict_tiebreak:
  assumes "http_method r = ''POST''" and "http_body r = Decoded req"
    and "req_CallerIP req \<noteq> []" and "zone (req_ChunkID req) = Some owner"
    and "n \<le> 1024"
  shows "(res_PlayerCount res < req_PlayerCount req \<longrightarrow>
            handlePeerChunk zone r (PeerReply n res) =
              (zone(req_ChunkID req \<mapsto> req_CallerIP req),
               Json (zero_Response\<lparr>res_Success := True, res_Message := req_CallerIP req,
                       res_NewIP := req_CallerIP req, res_Chunk := res_Chunk res\<rparr>))) \<and>
         (req_PlayerCount req \<le> res_PlayerCount res \<longrightarrow>
            handlePeerChunk zone r (PeerReply n res) =
              (zone, Json (zero_Response\<lparr>res_Success := True, res_Message := owner,
                             res_NewIP := owner\<rparr>))) \<and>
         (owner \<noteq> req_CallerIP req \<longrightarrow>
            (fst (handlePeerChunk zone r (PeerReply n res)) (req_ChunkID req) =
               Some (req_CallerIP req)
             \<longleftrightarrow> res_PlayerCount res < req_PlayerCount req))"
  using assms by (simp add: handlePeerChunk_def read_reply_def Let_def)

text \<open>
  A reply longer than the read buffer never reaches the comparison: the caller gets the
  chunk as soon as it reports one player, whatever the owner's count.
\<close>

lemma peer_chunk_oversize_reply:
  assumes "http_method r = ''POST''" and "http_body r = Decoded req"
    and "req_CallerIP req \<noteq> []" and "zone (req_ChunkID req) = Some owner"
    and "1024 < n"
  shows "handlePeerChunk zone r (PeerReply n res) =
           degraded zone (req_ChunkID req) (req_CallerIP req) (req_PlayerCount req) owner"
  using assms by (simp add: handlePeerChunk_def read_reply_def Let_def)

text \<open>
  Claim C1 at a failing input. Server \<open>172.16.118.72:9000\<close> owns chunk \<open>(0, 0)\<close> with
  eight players; server \<open>172.16.118.120:9000\<close> asks for the chunk with a player count of
  1. The owner keeps the chunk and replies with its player count, 8, and the chunk. The
  reply is 1170 bytes long, central reads 1024 of them, decoding fails, and the fallback
  gives the chunk to the caller because its count is positive: the registry entry is
  rewritten to the caller and the reply names the caller, although the owner's count is
  greater, where the claim says that the entry is unchanged and the reply names the owner.
\<close>

theorem peer_chunk_oversize_reply_moves_chunk:
  "handleCentralPeerReq
      \<lparr>serverIP = ''172.16.118.72:9000'', zone_map = [zero_ChunkID \<mapsto> crowded_chunk],
       players = Map.empty, player_map = Map.empty\<rparr>
      (zero_Request\<lparr>req_Type := ''FROM_CENTRAL'', req_CallerIP := ''172.16.118.120:9000'',
         req_PlayerCount := 1\<rparr>)
      MergeFailed =
     Inr (\<lparr>serverIP = ''172.16.118.72:9000'', zone_map = [zero_ChunkID \<mapsto> crowded_chunk],
           players = Map.empty, player_map = Map.empty\<rparr>,
          \<lparr>sent = [],
           reply = zero_Response\<lparr>res_Success := True, res_PlayerCount := 8,
                     res_Chunk := crowded_chunk\<rparr>\<rparr>) \<and>
   \<not> res_PlayerCount (zero_Response\<lparr>res_Success := True, res_PlayerCount := 8,
                          res_Chunk := crowded_chunk\<rparr>) < 1 \<and>
   handlePeerChunk [zero_ChunkID \<mapsto> ''172.16.118.72:9000'']
      (post (centralReq zero_ChunkID ''172.16.118.120:9000'' 1))
      (PeerReply 1170 (zero_Response\<lparr>res_Success := True, res_PlayerCount := 8,
                          res_Chunk := crowded_chunk\<rparr>)) =
     ([zero_ChunkID \<mapsto> ''172.16.118.120:9000''],
      Json (zero_Response\<lparr>res_Success := True, res_Message := ''172.16.118.120:9000'',
              res_NewIP := ''172.16.118.120:9000''\<rparr>))"
  by (simp add: handleCentralPeerReq_def handlePeerChunk_def read_reply_def degraded_def
        lookup_chunk_def crowded_chunk_def post_def centralReq_def zero_Request_def
        zero_Chunk_def Let_def)

text \<open>
  Claim C5, as stated: on first contact the reply carries the caller's address as the
  owner. At the request below the registry has no entry for the chunk, the entry is
  installed, and the reply is the zero \<open>Response\<close> with \<open>success = false\<close>: its
  \<open>message\<close> and \<open>new_ip\<close> are empty, not the caller's address. And a request with
  an empty \<open>caller_ip\<close> is refused before the registry is read or written.
\<close>

theorem peer_chunk_first_contact_counterexample:
  "handlePeerChunk Map.empty (post (centralReq zero_ChunkID ''172.16.118.120:9000'' 0)) ReadFailed =
     ([zero_ChunkID \<mapsto> ''172.16.118.120:9000''], Json zero_Response) \<and>
   res_Message zero_Response \<noteq> ''172.16.118.120:9000'' \<and>
   res_NewIP zero_Response \<noteq> ''172.16.118.120:9000'' \<and>
   handlePeerChunk Map.empty (post (centralReq zero_ChunkID [] 0)) ReadFailed =
     (Map.empty, TextError 400 ''Missing caller_ip'')"
  by (simp add: handlePeerChunk_def post_def centralReq_def zero_Request_def zero_Response_def)

text \<open>
  Claim C5, amended. A \<open>PEER_CHUNK\<close> request that passes the handler's checks (a \<open>POST\<close>
  with a decodable body and a non-empty \<open>caller_ip\<close>) for a chunk absent from the
  registry: afterwards the registry maps the chunk to the caller's address, whatever the
  network would have done, and the reply is \<open>success = false\<close> with every other field
  zero; the owner fields \<open>message\<close> and \<open>new_ip\<close> are empty.
\<close>

theorem peer_chunk_first_contact:
  assumes "http_method r = ''POST''" and "http_body r = Decoded req"
    and "req_CallerIP req \<noteq> []" and "zone (req_ChunkID req) = None"
  shows "handlePeerChunk zone r peer =
           (zone(req_ChunkID req \<mapsto> req_CallerIP req), Json zero_Response) \<and>
         \<not> res_Success zero_Response \<and> res_Message zero_Response = [] \<and>
         res_NewIP zero_Response = []"
  using assms by (simp add: handlePeerChunk_def zero_Response_def)

theorem peer_chunk_first_contact_witness:
  "fst (handlePeerChunk Map.empty (post (centralReq zero_ChunkID ''172.16.118.120:9000'' 0))
          WriteFailed) zero_ChunkID = Some ''172.16.118.120:9000''"
  using peer_chunk_first_contact
      [of "post (centralReq zero_ChunkID ''172.16.118.120:9000'' 0)"
          "centralReq zero_ChunkID ''172.16.118.120:9000'' 0" Map.empty WriteFailed]
  by (simp add: post_def centralReq_def zero_Request_def)

text \<open>
  With three or more configured servers \<open>randomServer\<close> never indexes past the list.
\<close>

lemma randomServer_configured:
  "3 \<le> length sl \<Longrightarrow> \<exists>assigned. randomServer sl pid = Inr assigned \<and> assigned \<in> set sl"
  by (auto simp: randomServer_def)

text \<open>
  Claim C8. Two \<open>JOIN\<close> calls with the same \<open>player_id\<close>, under the same membership
  list (of at least the three entries the source configures), whatever the registries and
  the other fields of the two requests: both are answered with the same assigned server,
  which \<open>randomServer\<close> computes from the list and the \<open>player_id\<close> alone, and each
  leaves the registry as it was.
\<close>

theorem join_idempotent:
  assumes "http_method r1 = ''POST''" and "http_method r2 = ''POST''"
    and "http_body r1 = Decoded q1" and "http_body r2 = Decoded q2"
    and "jreq_PlayerID q1 = jreq_PlayerID q2" and "3 \<le> length sl"
  shows "\<exists>assigned. randomServer sl (jreq_PlayerID q1) = Inr assigned \<and>
           enableCORS (handleJoin sl) z1 r1 =
             Inr (z1, Json (zero_Response\<lparr>res_Success := True, res_Message := assigned\<rparr>)) \<and>
           enableCORS (handleJoin sl) z2 r2 =
             Inr (z2, Json (zero_Response\<lparr>res_Success := True, res_Message := assigned\<rparr>)) \<and>
           central_step sl z1 (JOIN r1) = z1 \<and> central_step sl z2 (JOIN r2) = z2"
proof -
  obtain assigned where a: "randomServer sl (jreq_PlayerID q1) = Inr assigned"
    using randomServer_configured [OF assms(6)] by blast
  have "enableCORS (handleJoin sl) z r =
          Inr (z, Json (zero_Response\<lparr>res_Success := True, res_Message := assigned\<rparr>))"
    if "http_method r = ''POST''" and "http_body r = Decoded q"
      and "jreq_PlayerID q = jreq_PlayerID q1" for z r q
    using that a by (simp add: enableCORS_def handleJoin_def)
  then show ?thesis using assms a by simp
qed

theorem join_idempotent_witness:
  "enableCORS (handleJoin serversList) Map.empty
      (post \<lparr>jreq_PlayerID = ''2'', jreq_PosX = 0, jreq_PosY = 0\<rparr>) =
     Inr (Map.empty, Json (zero_Response\<lparr>res_Success := True,
                             res_Message := ''172.16.118.120:9000''\<rparr>)) \<and>
   enableCORS (handleJoin serversList) [zero_ChunkID \<mapsto> ''172.16.118.72:9000'']
      (post \<lparr>jreq_PlayerID = ''2'', jreq_PosX = 40, jreq_PosY = 7\<rparr>) =
     Inr ([zero_ChunkID \<mapsto> ''172.16.118.72:9000''],
          Json (zero_Response\<lparr>res_Success := True, res_Message := ''172.16.118.120:9000''\<rparr>))"
  using join_idempotent
      [of "post \<lparr>jreq_PlayerID = ''2'', jreq_PosX = 0, jreq_PosY = 0\<rparr>"
          "post \<lparr>jreq_PlayerID = ''2'', jreq_PosX = 40, jreq_PosY = 7\<rparr>"
          "\<lparr>jreq_PlayerID = ''2'', jreq_PosX = 0, jreq_PosY = 0\<rparr>"
          "\<lparr>jreq_PlayerID = ''2'', jreq_PosX = 40, jreq_PosY = 7\<rparr>"
          serversList Map.empty "[zero_ChunkID \<mapsto> ''172.16.118.72:9000'']"]
  by (simp add: post_def serversList_def randomServer_def)

section \<open>Game server: MERGE and ADD_CUBE\<close>

text \<open>The loop of \<open>handleMergeChunk\<close> appends the incoming players in their order.\<close>

lemma fold_append_each: "fold (\<lambda>x l. l @ [x]) xs ys = ys @ xs"
  by (induction xs arbitrary: ys) simp_all

text \<open>
  Claim C9. A \<open>MERGE\<close> for a chunk the receiver already holds replaces the entry by the
  local chunk with the incoming \<open>player_list\<close> appended, in order: \<open>cells\<close>, \<open>data\<close>,
  \<open>server_ip\<close>, \<open>is_dirty\<close> (and the coordinates) are the local ones, and nothing of
  the incoming chunk but its players is kept. No other part of the server state changes.
\<close>

theorem merge_present_appends_players:
  assumes "zone_map s (req_ChunkID req) = Some chunk"
  shows "handleMergeChunk s req =
           (s\<lparr>zone_map := (zone_map s)(req_ChunkID req \<mapsto>
                 chunk\<lparr>ch_PlayerList := ch_PlayerList chunk @ ch_PlayerList (req_Chunk req)\<rparr>)\<rparr>,
            \<lparr>sent = [],
             reply = zero_Response\<lparr>res_Success := True, res_Message := ''Merged Chunk''\<rparr>\<rparr>)"
  using assms by (simp add: handleMergeChunk_def fold_append_each Let_def)

theorem merge_present_appends_players_witness:
  "zone_map (fst (handleMergeChunk
      \<lparr>serverIP = ''172.16.118.120:9000'',
       zone_map = [zero_ChunkID \<mapsto> zero_Chunk\<lparr>ch_ServerIP := ''172.16.118.120:9000'',
                     ch_PlayerList := [zero_Player\<lparr>p_ID := ''p2''\<rparr>]\<rparr>],
       players = Map.empty, player_map = Map.empty\<rparr>
      (zero_Request\<lparr>req_Type := ''MERGE'',
         req_Chunk := zero_Chunk\<lparr>ch_ServerIP := ''172.16.118.72:9000'', ch_IsDirty := True,
           ch_PlayerList := [zero_Player\<lparr>p_ID := ''p1''\<rparr>],
           ch_Cells := [zero_Cube\<lparr>cube_ID := ''k1''\<rparr>]\<rparr>\<rparr>))) zero_ChunkID =
   Some (zero_Chunk\<lparr>ch_ServerIP := ''172.16.118.120:9000'',
           ch_PlayerList := [zero_Player\<lparr>p_ID := ''p2''\<rparr>, zero_Player\<lparr>p_ID := ''p1''\<rparr>]\<rparr>)"
  using merge_present_appends_players
      [of "\<lparr>serverIP = ''172.16.118.120:9000'',
            zone_map = [zero_ChunkID \<mapsto> zero_Chunk\<lparr>ch_ServerIP := ''172.16.118.120:9000'',
                     ch_PlayerList := [zero_Player\<lparr>p_ID := ''p2''\<rparr>]\<rparr>],
            players = Map.empty, player_map = Map.empty\<rparr>"
          "zero_Request\<lparr>req_Type := ''MERGE'',
             req_Chunk := zero_Chunk\<lparr>ch_ServerIP := ''172.16.118.72:9000'', ch_IsDirty := True,
               ch_PlayerList := [zero_Player\<lparr>p_ID := ''p1''\<rparr>],
               ch_Cells := [zero_Cube\<lparr>cube_ID := ''k1''\<rparr>]\<rparr>\<rparr>"
          "zero_Chunk\<lparr>ch_ServerIP := ''172.16.118.120:9000'',
                     ch_PlayerList := [zero_Player\<lparr>p_ID := ''p2''\<rparr>]\<rparr>"]
  by (simp add: zero_Request_def)

text \<open>
  Claim C10. Every \<open>ADD_CUBE\<close> is answered with \<open>success = true\<close>, whatever the
  \<open>server_ip\<close> of the chunk, and afterwards \<open>zone_map\<close> holds for the chunk id the
  former chunk (the zero chunk when there was none) with the cube appended to \<open>cells\<close>
  and \<open>is_dirty\<close> set; for an absent chunk that is a chunk with no players, an empty
  \<open>server_ip\<close> and the cube as its only cell.
\<close>

theorem add_cube_always_succeeds:
  "res_Success (reply (snd (handleAddCube s req))) \<and>
   zone_map (fst (handleAddCube s req)) (req_ChunkID req) =
     Some ((lookup_chunk (zone_map s) (req_ChunkID req))
             \<lparr>ch_Cells := ch_Cells (lookup_chunk (zone_map s) (req_ChunkID req)) @ [req_Cube req],
              ch_IsDirty := True\<rparr>) \<and>
   (zone_map s (req_ChunkID req) = None \<longrightarrow>
      zone_map (fst (handleAddCube s req)) (req_ChunkID req) =
        Some \<lparr>ch_IDX = 0, ch_IDY = 0, ch_ServerIP = [], ch_Data = [], ch_PlayerList = [],
              ch_IsDirty = True, ch_Cells = [req_Cube req]\<rparr>)"
  by (simp add: handleAddCube_def lookup_chunk_def zero_Response_def zero_Chunk_def Let_def
        split: option.splits)

theorem add_cube_always_succeeds_witness:
  "zone_map (fst (handleAddCube
      \<lparr>serverIP = ''172.16.118.72:9000'', zone_map = Map.empty, players = Map.empty,
       player_map = Map.empty\<rparr>
      (zero_Request\<lparr>req_Type := ''ADD_CUBE'',
         req_Cube := \<lparr>cube_ID = ''k1'', cube_X = 3, cube_Z = 5, cube_Height = 0,
                      cube_Color = ''#ff0000''\<rparr>\<rparr>))) zero_ChunkID =
   Some \<lparr>ch_IDX = 0, ch_IDY = 0, ch_ServerIP = [], ch_Data = [], ch_PlayerList = [],
         ch_IsDirty = True,
         ch_Cells = [\<lparr>cube_ID = ''k1'', cube_X = 3, cube_Z = 5, cube_Height = 0,
                      cube_Color = ''#ff0000''\<rparr>]\<rparr>"
  using add_cube_always_succeeds
      [of "\<lparr>serverIP = ''172.16.118.72:9000'', zone_map = Map.empty, players = Map.empty,
            player_map = Map.empty\<rparr>"
          "zero_Request\<lparr>req_Type := ''ADD_CUBE'',
             req_Cube := \<lparr>cube_ID = ''k1'', cube_X = 3, cube_Z = 5, cube_Height = 0,
                          cube_Color = ''#ff0000''\<rparr>\<rparr>"]
  by (simp add: zero_Request_def lookup_chunk_def zero_Chunk_def)

section \<open>Game server: DLT_CUBE\<close>

text \<open>
  The loop of \<open>handleDltCube\<close> stops at the first cell with the requested id, and that
  index is inside the slice.
\<close>

lemma first_match_finds:
  "cube_id \<in> cube_ID ` set cells \<Longrightarrow>
   \<exists>i. first_match cells cube_id = Some i \<and> i < length cells \<and> cube_ID (cells ! i) = cube_id"
  by (induction cells) auto

text \<open>
  Swap-remove on cells with pairwise different ids: once the last cell has been copied
  over index \<open>i\<close> and the slice cut by one, no cell carries the id that was at \<open>i\<close>.
\<close>

lemma swap_remove_drops_id:
  assumes d: "distinct (map cube_ID s)" and i: "i < length s"
  shows "cube_ID (s ! i) \<notin> cube_ID ` set (butlast (s[i := s ! (length s - 1)]))"
proof
  let ?t = "butlast (s[i := s ! (length s - 1)])"
  assume "cube_ID (s ! i) \<in> cube_ID ` set ?t"
  then obtain x where x: "x \<in> set ?t" and idx: "cube_ID x = cube_ID (s ! i)" by auto
  from x obtain j where j: "j < length ?t" and tj: "?t ! j = x"
    by (auto simp: in_set_conv_nth)
  from j have jn: "j < length s - 1" by simp
  have xj: "x = (if i = j then s ! (length s - 1) else s ! j)"
    using tj jn i by (auto simp: nth_butlast nth_list_update)
  have "\<exists>k. k < length s \<and> k \<noteq> i \<and> x = s ! k"
  proof (cases "i = j")
    case True
    with xj jn have "length s - 1 < length s \<and> length s - 1 \<noteq> i \<and> x = s ! (length s - 1)"
      by simp
    then show ?thesis by blast
  next
    case False
    with xj jn have "j < length s \<and> j \<noteq> i \<and> x = s ! j" by simp
    then show ?thesis by blast
  qed
  then obtain k where k: "k < length s" and ki: "k \<noteq> i" and xk: "x = s ! k" by blast
  from idx xk have "cube_ID (s ! k) = cube_ID (s ! i)" by simp
  with nth_eq_iff_index_eq [OF d, of k i] k i have "k = i" by simp
  with ki show False by simp
qed

text \<open>
  Claim C7. A \<open>DLT_CUBE\<close> for a \<open>cube_id\<close> that occurs in the cells of the chunk, the
  ids of the cells being pairwise different: the handler returns (no index is out of
  range), the stored chunk has no cell with that id, exactly one cell less than before,
  \<open>is_dirty\<close> set, and the reply has \<open>success = true\<close>.
\<close>

theorem dlt_cube_removes:
  assumes "zone_map s (req_ChunkID req) = Some chunk"
    and "distinct (map cube_ID (ch_Cells chunk))"
    and "req_CubeID req \<in> cube_ID ` set (ch_Cells chunk)"
  shows "\<exists>s' e chunk'.
           handleDltCube s req = Inr (s', e) \<and>
           zone_map s' (req_ChunkID req) = Some chunk' \<and>
           req_CubeID req \<notin> cube_ID ` set (ch_Cells chunk') \<and>
           Suc (length (ch_Cells chunk')) = length (ch_Cells chunk) \<and>
           ch_IsDirty chunk' \<and> res_Success (reply e)"
proof -
  obtain i where fm: "first_match (ch_Cells chunk) (req_CubeID req) = Some i"
    and i: "i < length (ch_Cells chunk)" and id: "cube_ID (ch_Cells chunk ! i) = req_CubeID req"
    using first_match_finds [OF assms(3)] by blast
  let ?cells = "butlast ((ch_Cells chunk)[i := ch_Cells chunk ! (length (ch_Cells chunk) - 1)])"
  have del: "deleteFromList (ch_Cells chunk) i = Inr ?cells"
    using i by (simp add: deleteFromList_def)
  have gone: "req_CubeID req \<notin> cube_ID ` set ?cells"
    using swap_remove_drops_id [OF assms(2) i] id by simp
  have len: "Suc (length ?cells) = length (ch_Cells chunk)"
    using i by simp
  have "handleDltCube s req =
          Inr (s\<lparr>zone_map := (zone_map s)(req_ChunkID req \<mapsto>
                    chunk\<lparr>ch_Cells := ?cells, ch_IsDirty := True\<rparr>)\<rparr>,
               \<lparr>sent = [],
                reply = zero_Response\<lparr>res_Success := True, res_Message := ''Deleted Cube''\<rparr>\<rparr>)"
    using assms(1) fm del by (simp add: handleDltCube_def lookup_chunk_def Let_def)
  then show ?thesis using gone len by simp
qed

theorem dlt_cube_removes_witness:
  "handleDltCube
      \<lparr>serverIP = ''172.16.118.72:9000'',
       zone_map = [zero_ChunkID \<mapsto> zero_Chunk\<lparr>ch_ServerIP := ''172.16.118.72:9000'',
          ch_Cells := [zero_Cube\<lparr>cube_ID := ''k1''\<rparr>, zero_Cube\<lparr>cube_ID := ''k2''\<rparr>,
                       zero_Cube\<lparr>cube_ID := ''k3''\<rparr>]\<rparr>],
       players = Map.empty, player_map = Map.empty\<rparr>
      (zero_Request\<lparr>req_Type := ''DLT_CUBE'', req_CubeID := ''k1''\<rparr>) =
   Inr (\<lparr>serverIP = ''172.16.118.72:9000'',
         zone_map = [zero_ChunkID \<mapsto> zero_Chunk\<lparr>ch_ServerIP := ''172.16.118.72:9000'',
            ch_IsDirty := True,
            ch_Cells := [zero_Cube\<lparr>cube_ID := ''k3''\<rparr>, zero_Cube\<lparr>cube_ID := ''k2''\<rparr>]\<rparr>],
         players = Map.empty, player_map = Map.empty\<rparr>,
        \<lparr>sent = [],
         reply = zero_Response\<lparr>res_Success := True, res_Message := ''Deleted Cube''\<rparr>\<rparr>)
   \<and> ''k1'' \<notin> cube_ID ` {zero_Cube\<lparr>cube_ID := ''k3''\<rparr>, zero_Cube\<lparr>cube_ID := ''k2''\<rparr>}"
  using dlt_cube_removes
      [of "\<lparr>serverIP = ''172.16.118.72:9000'',
            zone_map = [zero_ChunkID \<mapsto> zero_Chunk\<lparr>ch_ServerIP := ''172.16.118.72:9000'',
               ch_Cells := [zero_Cube\<lparr>cube_ID := ''k1''\<rparr>, zero_Cube\<lparr>cube_ID := ''k2''\<rparr>,
                            zero_Cube\<lparr>cube_ID := ''k3''\<rparr>]\<rparr>],
            players = Map.empty, player_map = Map.empty\<rparr>"
          "zero_Request\<lparr>req_Type := ''DLT_CUBE'', req_CubeID := ''k1''\<rparr>"
          "zero_Chunk\<lparr>ch_ServerIP := ''172.16.118.72:9000'',
               ch_Cells := [zero_Cube\<lparr>cube_ID := ''k1''\<rparr>, zero_Cube\<lparr>cube_ID := ''k2''\<rparr>,
                            zero_Cube\<lparr>cube_ID := ''k3''\<rparr>]\<rparr>"]
  by (simp add: zero_Request_def handleDltCube_def lookup_chunk_def deleteFromList_def
        zero_Chunk_def zero_Cube_def Let_def)

section \<open>Central coordinator: who rewrites the registry\<close>

text \<open>
  A call that changes the entry of chunk \<open>c\<close> is a \<open>PEER_CHUNK\<close> or a \<open>SENT_CHUNK\<close>
  whose request names \<open>c\<close>, and the new entry is the \<open>caller_ip\<close> of that request.
\<close>

lemma central_step_rewrite:
  assumes "central_step sl z call c \<noteq> z c"
  shows "(is_PEER_CHUNK call \<or> is_SENT_CHUNK call) \<and>
         (\<exists>req. call_request call = Some req \<and> req_ChunkID req = c \<and>
                central_step sl z call c = Some (req_CallerIP req))"
proof (cases call)
  case (JOIN r)
  have "central_step sl z (JOIN r) = z"
    by (simp add: enableCORS_def handleJoin_def split: http_body.splits sum.splits)
  with assms JOIN show ?thesis by simp
next
  case (PEER_CHUNK r peer)
  with assms show ?thesis
    by (auto simp: handlePeerChunk_def degraded_def read_reply_def Let_def
        split: if_splits http_body.splits option.splits peer_outcome.splits)
next
  case (SENT_CHUNK r)
  with assms show ?thesis
    by (auto simp: handleSentChunk_def split: if_splits http_body.splits)
qed

text \<open>The registry before a call of a sequence is the run of the calls before it.\<close>

lemma central_run_append:
  "central_run sl z0 (pre @ call # rest) =
     central_run sl (central_step sl (central_run sl z0 pre) call) rest"
  by (induction pre arbitrary: z0) simp_all

text \<open>
  After any sequence of calls the entry of \<open>c\<close> is the initial one or the \<open>caller_ip\<close>
  of a request of the sequence that names \<open>c\<close>.
\<close>

lemma central_run_values:
  "central_run sl z0 calls c = z0 c \<or>
   (\<exists>call \<in> set calls. \<exists>req. call_request call = Some req \<and> req_ChunkID req = c \<and>
       central_run sl z0 calls c = Some (req_CallerIP req))"
proof (induction calls arbitrary: z0)
  case Nil
  then show ?case by simp
next
  case (Cons call calls)
  from Cons.IH [of "central_step sl z0 call"]
  show ?case
  proof
    assume same: "central_run sl (central_step sl z0 call) calls c = central_step sl z0 call c"
    show ?thesis
    proof (cases "central_step sl z0 call c = z0 c")
      case True
      with same show ?thesis by simp
    next
      case False
      from central_step_rewrite [OF False] same show ?thesis by auto
    qed
  next
    assume "\<exists>call' \<in> set calls. \<exists>req. call_request call' = Some req \<and> req_ChunkID req = c \<and>
       central_run sl (central_step sl z0 call) calls c = Some (req_CallerIP req)"
    then show ?thesis by auto
  qed
qed

text \<open>
  Claim C6, as stated: every rewrite of a registry entry belongs to a \<open>PEER_CHUNK\<close> call.
  The route \<open>/sentchunk\<close> of \<open>main\<close> is served by \<open>handleSentChunk\<close>, which stores
  the caller's address without asking anyone: here it moves the entry of chunk \<open>(0, 0)\<close>
  from one server to another, and the call is not a \<open>PEER_CHUNK\<close>.
\<close>

theorem registry_rewrite_counterexample:
  "[zero_ChunkID \<mapsto> ''172.16.118.72:9000''] zero_ChunkID = Some ''172.16.118.72:9000'' \<and>
   central_step serversList [zero_ChunkID \<mapsto> ''172.16.118.72:9000'']
      (SENT_CHUNK (post (zero_Request\<lparr>req_CallerIP := ''172.16.118.120:9000''\<rparr>))) zero_ChunkID =
     Some ''172.16.118.120:9000'' \<and>
   \<not> is_PEER_CHUNK (SENT_CHUNK (post (zero_Request\<lparr>req_CallerIP := ''172.16.118.120:9000''\<rparr>)))"
  by (simp add: handleSentChunk_def post_def zero_Request_def)

text \<open>
  Claim C6, amended. In every sequence of central calls, a call that changes the entry of
  chunk \<open>c\<close> (here \<open>call\<close>, after the calls \<open>pre\<close>) is a \<open>PEER_CHUNK\<close> or a
  \<open>SENT_CHUNK\<close> call whose request names \<open>c\<close>, and the value written is the
  \<open>caller_ip\<close> of that request; and after the whole sequence the entry is its initial
  value or the \<open>caller_ip\<close> of one of the requests naming \<open>c\<close>: no other value appears.
\<close>

theorem registry_rewrites_carry_caller:
  assumes "calls = pre @ call # rest"
    and "central_step sl (central_run sl z0 pre) call c \<noteq> central_run sl z0 pre c"
  shows "central_run sl z0 calls =
           central_run sl (central_step sl (central_run sl z0 pre) call) rest \<and>
         (is_PEER_CHUNK call \<or> is_SENT_CHUNK call) \<and>
         (\<exists>req. call_request call = Some req \<and> req_ChunkID req = c \<and>
            central_step sl (central_run sl z0 pre) call c = Some (req_CallerIP req)) \<and>
         (central_run sl z0 calls c = z0 c \<or>
          (\<exists>call' \<in> set calls. \<exists>req. call_request call' = Some req \<and> req_ChunkID req = c \<and>
              central_run sl z0 calls c = Some (req_CallerIP req)))"
  using central_step_rewrite [OF assms(2)] central_run_values [of sl z0 calls c]
    central_run_append [of sl z0 pre call rest] assms(1)
  by simp

theorem registry_rewrites_carry_caller_witness:
  "central_step serversList
      (central_run serversList Map.empty
         [PEER_CHUNK (post (centralReq zero_ChunkID ''172.16.118.72:9000'' 0)) ReadFailed])
      (SENT_CHUNK (post (zero_Request\<lparr>req_CallerIP := ''172.16.118.120:9000''\<rparr>))) zero_ChunkID =
   Some ''172.16.118.120:9000''"
  using registry_rewrites_carry_caller
     [of "[PEER_CHUNK (post (centralReq zero_ChunkID ''172.16.118.72:9000'' 0)) ReadFailed,
           SENT_CHUNK (post (zero_Request\<lparr>req_CallerIP := ''172.16.118.120:9000''\<rparr>))]"
         "[PEER_CHUNK (post (centralReq zero_ChunkID ''172.16.118.72:9000'' 0)) ReadFailed]"
         "SENT_CHUNK (post (zero_Request\<lparr>req_CallerIP := ''172.16.118.120:9000''\<rparr>))"
         "[]" serversList Map.empty zero_ChunkID]
  by (simp add: handleSentChunk_def handlePeerChunk_def post_def centralReq_def zero_Request_def)

section \<open>Game server: yielding a chunk\<close>

text \<open>The \<open>range\<close> loops over \<open>PlayerList\<close> leave the slice as it was.\<close>

lemma range_assign_ServerIP_unchanged: "range_assign_ServerIP ps ip = ps"
  by (induction ps) (simp_all add: Let_def)

text \<open>
  \<open>FROM_CENTRAL\<close> when the caller has at least as many players and the \<open>MERGE\<close> is
  acknowledged: the chunk gets the caller's address and the dirty flag, the \<open>MERGE\<close>
  to the caller carries it, and the reply carries it with the local player count.
\<close>

lemma from_central_acked:
  assumes "int (length (ch_PlayerList (lookup_chunk (zone_map s) (req_ChunkID req)))) \<le> req_PlayerCount req"
  shows "handleCentralPeerReq s req (MergeAck ack) =
     (let chunk = (lookup_chunk (zone_map s) (req_ChunkID req))
                    \<lparr>ch_ServerIP := req_CallerIP req, ch_IsDirty := True\<rparr>
      in Inr (s\<lparr>zone_map := (zone_map s)(req_ChunkID req \<mapsto> chunk)\<rparr>,
              \<lparr>sent = [(req_CallerIP req,
                         zero_Request\<lparr>req_Type := ''MERGE'', req_ChunkID := req_ChunkID req,
                           req_Chunk := chunk\<rparr>)],
               reply = zero_Response\<lparr>res_Success := True, res_Chunk := chunk,
                         res_PlayerCount := int (length (ch_PlayerList chunk))\<rparr>\<rparr>))"
  using assms
  by (simp add: handleCentralPeerReq_def Let_def merge_res_Message_def
        range_assign_ServerIP_unchanged)

text \<open>\<open>FROM_CENTRAL\<close> when the caller has fewer players: nothing changes, no \<open>MERGE\<close>.\<close>

lemma from_central_kept:
  assumes "req_PlayerCount req < int (length (ch_PlayerList (lookup_chunk (zone_map s) (req_ChunkID req))))"
  shows "handleCentralPeerReq s req m =
     Inr (s, \<lparr>sent = [],
              reply = zero_Response\<lparr>res_Success := True,
                 res_PlayerCount := int (length (ch_PlayerList (lookup_chunk (zone_map s) (req_ChunkID req)))),
                 res_Chunk := lookup_chunk (zone_map s) (req_ChunkID req)\<rparr>\<rparr>)"
  using assms by (simp add: handleCentralPeerReq_def Let_def)

text \<open>
  \<open>FROM_CENTRAL\<close> when the caller has at least as many players and \<open>merge\<close> returns an
  error or ends the process: the handler never reaches \<open>sendJSON\<close>.
\<close>

lemma from_central_unacked:
  assumes "int (length (ch_PlayerList (lookup_chunk (zone_map s) (req_ChunkID req)))) \<le> req_PlayerCount req"
  shows "handleCentralPeerReq s req MergeFailed = Inl NilPointerDereference"
    and "handleCentralPeerReq s req MergeFatal = Inl LogFatal"
  using assms
  by (simp_all add: handleCentralPeerReq_def Let_def merge_res_Message_def)

text \<open>
  Claim C2 at a failing input. Server \<open>172.16.118.72:9000\<close> owns chunk \<open>(0, 0)\<close> with no
  players; \<open>FROM_CENTRAL\<close> arrives for caller \<open>172.16.118.120:9000\<close> with a player count
  of 2, so the server yields; the caller does not acknowledge the \<open>MERGE\<close> within the
  two seconds, and \<open>merge\<close> returns \<open>nil\<close> with the error. The handler reads
  \<open>merge_res.Message\<close> and panics: no reply is sent, where the claim says that the
  server replies with the chunk and its player count.
\<close>

theorem from_central_unacked_merge_panics:
  "handleCentralPeerReq
      \<lparr>serverIP = ''172.16.118.72:9000'',
       zone_map = [zero_ChunkID \<mapsto> zero_Chunk\<lparr>ch_ServerIP := ''172.16.118.72:9000'',
                     ch_Data := ''new chunk''\<rparr>],
       players = Map.empty, player_map = Map.empty\<rparr>
      (zero_Request\<lparr>req_Type := ''FROM_CENTRAL'', req_CallerIP := ''172.16.118.120:9000'',
         req_PlayerCount := 2\<rparr>)
      MergeFailed
   = Inl NilPointerDereference"
  by (simp add: handleCentralPeerReq_def lookup_chunk_def zero_Request_def zero_Chunk_def
        merge_res_Message_def Let_def)

text \<open>
  \<open>GET_DATA\<close> on a server that holds the chunk, does not own it, and is told by central
  that another server owns it, the \<open>MERGE\<close> being acknowledged: the last assignment of
  the branch, \<open>zone_map[chunk_id] = res.Chunk\<close>, stores the zero chunk, because the
  reply of this case has no chunk body.
\<close>

lemma get_data_yield_overwrites:
  assumes "zone_map s (req_ChunkID req) = Some val"
    and "ch_ServerIP val \<noteq> serverIP s"
    and "res_Success cr" and "res_Message cr \<noteq> serverIP s"
  shows "handleGetData s req (CentralResponse cr) (MergeAck ack) =
     Inr (s\<lparr>zone_map := (zone_map s)(req_ChunkID req \<mapsto> zero_Chunk)\<rparr>,
          \<lparr>sent = [(res_Message cr,
                     zero_Request\<lparr>req_Type := ''MERGE'', req_ChunkID := req_ChunkID req,
                       req_Chunk := val\<lparr>ch_ServerIP := res_Message cr, ch_IsDirty := True\<rparr>\<rparr>)],
           reply = zero_Response\<lparr>res_Success := True, res_Message := res_Message cr\<rparr>\<rparr>)"
  using assms
  by (simp add: handleGetData_def lookup_chunk_def Let_def merge_res_Message_def
        range_assign_ServerIP_unchanged zero_Response_def)

text \<open>
  Claim C3 at a failing input. Server \<open>172.16.118.72:9000\<close> holds a copy of chunk
  \<open>(0, 0)\<close> with one cube; central names \<open>172.16.118.120:9000\<close> as the owner and the
  \<open>MERGE\<close> is acknowledged. After the handler the entry of the chunk is the zero chunk:
  its \<open>server_ip\<close> is empty, not the new owner, and \<open>is_dirty\<close> is false, where the
  claim says that the copy is kept with the new owner's address and the dirty flag.
\<close>

theorem get_data_redirect_drops_cached_copy:
  "handleGetData
      \<lparr>serverIP = ''172.16.118.72:9000'',
       zone_map = [zero_ChunkID \<mapsto> zero_Chunk\<lparr>ch_ServerIP := ''172.16.118.120:9000'',
          ch_Data := ''new chunk'', ch_IsDirty := True,
          ch_Cells := [zero_Cube\<lparr>cube_ID := ''k1''\<rparr>]\<rparr>],
       players = Map.empty, player_map = Map.empty\<rparr>
      (zero_Request\<lparr>req_Type := ''GET_DATA'', req_Player := zero_Player\<lparr>p_ID := ''p1''\<rparr>\<rparr>)
      (CentralResponse (zero_Response\<lparr>res_Success := True,
         res_Message := ''172.16.118.120:9000'', res_NewIP := ''172.16.118.120:9000''\<rparr>))
      (MergeAck (zero_Response\<lparr>res_Success := True, res_Message := ''Merged Chunk''\<rparr>))
   = Inr (\<lparr>serverIP = ''172.16.118.72:9000'',
           zone_map = [zero_ChunkID \<mapsto>
              \<lparr>ch_IDX = 0, ch_IDY = 0, ch_ServerIP = [], ch_Data = [], ch_PlayerList = [],
               ch_IsDirty = False, ch_Cells = []\<rparr>],
           players = Map.empty, player_map = Map.empty\<rparr>,
          \<lparr>sent = [(''172.16.118.120:9000'',
                     zero_Request\<lparr>req_Type := ''MERGE'',
                       req_Chunk := zero_Chunk\<lparr>ch_ServerIP := ''172.16.118.120:9000'',
                         ch_Data := ''new chunk'', ch_IsDirty := True,
                         ch_Cells := [zero_Cube\<lparr>cube_ID := ''k1''\<rparr>]\<rparr>\<rparr>)],
           reply = zero_Response\<lparr>res_Success := True,
                     res_Message := ''172.16.118.120:9000''\<rparr>\<rparr>)"
  by (simp add: handleGetData_def lookup_chunk_def Let_def merge_res_Message_def
        zero_Response_def zero_Request_def zero_Chunk_def zero_Player_def)

text \<open>
  Claim C4 at failing inputs. In \<open>FROM_CENTRAL\<close>, the server yields chunk \<open>(0, 0)\<close> with
  player \<open>p1\<close> to \<open>172.16.118.120:9000\<close>: the stored chunk, the chunk of the \<open>MERGE\<close>
  and the chunk of the reply all carry \<open>p1\<close> with its former \<open>server_ip\<close>
  \<open>172.16.118.72:9000\<close>. In \<open>GET_DATA\<close>, central names \<open>172.16.118.120:9000\<close> as the
  owner of a chunk the server holds: the chunk of the \<open>MERGE\<close> carries \<open>p1\<close> with its
  former \<open>server_ip\<close> as well. The claim says that every player of the chunk has the
  new owner's address.
\<close>

theorem yield_leaves_player_server_ip:
  "handleCentralPeerReq
      \<lparr>serverIP = ''172.16.118.72:9000'',
       zone_map = [zero_ChunkID \<mapsto> zero_Chunk\<lparr>ch_ServerIP := ''172.16.118.72:9000'',
          ch_PlayerList := [zero_Player\<lparr>p_ID := ''p1'', p_ServerIP := ''172.16.118.72:9000''\<rparr>]\<rparr>],
       players = Map.empty, player_map = Map.empty\<rparr>
      (zero_Request\<lparr>req_Type := ''FROM_CENTRAL'', req_CallerIP := ''172.16.118.120:9000'',
         req_PlayerCount := 2\<rparr>)
      (MergeAck (zero_Response\<lparr>res_Success := True, res_Message := ''Merged Chunk''\<rparr>))
   = Inr (\<lparr>serverIP = ''172.16.118.72:9000'',
           zone_map = [zero_ChunkID \<mapsto> zero_Chunk\<lparr>ch_ServerIP := ''172.16.118.120:9000'',
              ch_IsDirty := True,
              ch_PlayerList := [zero_Player\<lparr>p_ID := ''p1'', p_ServerIP := ''172.16.118.72:9000''\<rparr>]\<rparr>],
           players = Map.empty, player_map = Map.empty\<rparr>,
          \<lparr>sent = [(''172.16.118.120:9000'',
                     zero_Request\<lparr>req_Type := ''MERGE'',
                       req_Chunk := zero_Chunk\<lparr>ch_ServerIP := ''172.16.118.120:9000'',
                         ch_IsDirty := True,
                         ch_PlayerList := [zero_Player\<lparr>p_ID := ''p1'',
                                             p_ServerIP := ''172.16.118.72:9000''\<rparr>]\<rparr>\<rparr>)],
           reply = zero_Response\<lparr>res_Success := True, res_PlayerCount := 1,
                     res_Chunk := zero_Chunk\<lparr>ch_ServerIP := ''172.16.118.120:9000'',
                         ch_IsDirty := True,
                         ch_PlayerList := [zero_Player\<lparr>p_ID := ''p1'',
                                             p_ServerIP := ''172.16.118.72:9000''\<rparr>]\<rparr>\<rparr>\<rparr>)
   \<and>
   map_sum id (sent \<circ> snd) (handleGetData
      \<lparr>serverIP = ''172.16.118.72:9000'',
       zone_map = [zero_ChunkID \<mapsto> zero_Chunk\<lparr>ch_ServerIP := ''172.16.118.112:9000'',
          ch_PlayerList := [zero_Player\<lparr>p_ID := ''p1'', p_ServerIP := ''172.16.118.72:9000''\<rparr>]\<rparr>],
       players = Map.empty, player_map = Map.empty\<rparr>
      (zero_Request\<lparr>req_Type := ''GET_DATA'', req_Player := zero_Player\<lparr>p_ID := ''p1''\<rparr>\<rparr>)
      (CentralResponse (zero_Response\<lparr>res_Success := True,
         res_Message := ''172.16.118.120:9000'', res_NewIP := ''172.16.118.120:9000''\<rparr>))
      (MergeAck (zero_Response\<lparr>res_Success := True, res_Message := ''Merged Chunk''\<rparr>)))
   = Inr [(''172.16.118.120:9000'',
           zero_Request\<lparr>req_Type := ''MERGE'',
             req_Chunk := zero_Chunk\<lparr>ch_ServerIP := ''172.16.118.120:9000'', ch_IsDirty := True,
               ch_PlayerList := [zero_Player\<lparr>p_ID := ''p1'',
                                   p_ServerIP := ''172.16.118.72:9000''\<rparr>]\<rparr>\<rparr>)]"
  by (simp add: handleCentralPeerReq_def handleGetData_def lookup_chunk_def Let_def
        merge_res_Message_def zero_Response_def zero_Request_def zero_Chunk_def zero_Player_def)

end
